theory Spec2Isabelle
  imports Complex_Main "HOL-Library.AList"
begin

section \<open>Results of Go functions\<close>

text \<open>
  Instants of \<^verbatim>\<open>time.Time\<close> are natural numbers (nanoseconds); a pointer
  \<^verbatim>\<open>*T\<close> is a \<open>T option\<close> whose \<open>None\<close> is \<^verbatim>\<open>nil\<close>.
\<close>

type_synonym time = nat

text \<open>
  The error values the client package builds. Each constructor stands for one message
  format of the source and carries the values formatted into it.
\<close>

datatype error =
    StillRunning string time
      \<comment> \<open>\<^verbatim>\<open>"%s operation that started at %s is still running"\<close>\<close>
  | CannotApply string string
  | CannotDestroy string string
  | CannotRefresh string string
  | CannotPlan string string
  | CannotReadState
  | CannotUnmarshalState
  | NoChangeSummary string
      \<comment> \<open>\<^verbatim>\<open>"cannot find the change summary line in plan log: %s"\<close>\<close>
  | CannotUnmarshalSummary
  | OperationFailed string error
      \<comment> \<open>\<^verbatim>\<open>errors.Wrapf(Err, "%s operation failed", Type)\<close>\<close>
  | NotFound
      \<comment> \<open>\<^verbatim>\<open>kerrors.NewNotFound(schema.GroupResource{}, "")\<close>\<close>
  | CannotGetParameters string
  | CannotGetObservation string
  | CannotCreateFileProducer error
  | CannotMarshalAttributes
  | CannotCreateDirectory
  | CannotStatState
  | CannotProduceState error
  | CannotMarshalState
  | CannotMarshalMain
  | CannotWriteFile
  | UnexpectedObject
  | CannotCheckExists error

datatype panic = NilDereference | NilMapAssignment

text \<open>
  A call either panics, returns a non-nil error, or returns normally.
\<close>

datatype 'a outcome = Panics panic | Fails error | Returns 'a

section \<open>Operation\<close>

record Operation =
  Type :: string
  StartTime :: "time option"
  EndTime :: "time option"
  err :: "error option"

text \<open>
  The three methods are declared with a value receiver (\<^verbatim>\<open>func (o Operation) ...\<close>).
  Each definition below is the body of the method: what it does to its own receiver
  \<open>op\<close>.
\<close>

definition MarkStart :: "time \<Rightarrow> string \<Rightarrow> Operation \<Rightarrow> Operation" where
  "MarkStart now t op = op\<lparr>Type := t, StartTime := Some now, EndTime := None, err := None\<rparr>"

definition MarkEnd :: "time \<Rightarrow> Operation \<Rightarrow> Operation" where
  "MarkEnd now op = op\<lparr>EndTime := Some now\<rparr>"

definition Flush :: "Operation \<Rightarrow> Operation" where
  "Flush op = op\<lparr>Type := [], StartTime := None, EndTime := None, err := None\<rparr>"

text \<open>
  Calling a value-receiver method through a pointer, \<^verbatim>\<open>p.M()\<close>, is \<^verbatim>\<open>(*p).M()\<close>:
  the record \<open>p\<close> points to is copied, the body runs on the copy, and the copy is dropped
  when the method returns. The record behind the pointer is what it was.
\<close>

definition value_receiver_call :: "('r \<Rightarrow> 'r) \<Rightarrow> 'r \<Rightarrow> 'r" where
  "value_receiver_call body pointee = (let receiver = body pointee in pointee)"

text \<open>The lifecycle states of the specification, read off the fields.\<close>

definition Idle :: "Operation \<Rightarrow> bool" where
  "Idle op = (Type op = [] \<and> StartTime op = None \<and> EndTime op = None \<and> err op = None)"

definition Running :: "Operation \<Rightarrow> bool" where
  "Running op = (StartTime op \<noteq> None \<and> EndTime op = None)"

definition Finished :: "Operation \<Rightarrow> bool" where
  "Finished op = (StartTime op \<noteq> None \<and> EndTime op \<noteq> None)"

section \<open>Workspace\<close>

type_synonym EnqueueFn = nat

record Workspace =
  LastOperation :: "Operation option"
  Enqueue :: EnqueueFn
  dir :: string

text \<open>
  What \<^verbatim>\<open>cmd.Run()\<close> gives back: the error (if the process failed) and the two
  captured buffers.
\<close>

record cmd_out =
  run_err :: "string option"
  stdout :: string
  stderr :: string

text \<open>A background task handed to \<^verbatim>\<open>go func() {...}()\<close>: its command line and deadline.\<close>

record task =
  task_args :: "string list"
  task_dir :: string
  deadline :: time

text \<open>
  The state a Workspace method runs in: the workspace itself, the files of the host, the
  command lines run synchronously so far, the background tasks launched so far, and the
  number of times the enqueue callback was called.
\<close>

type_synonym files = "string \<rightharpoonup> string"

record world =
  ws :: Workspace
  disk :: files
  ran :: "string list list"
  spawned :: "task list"
  enqueued :: nat

definition defaultAsyncTimeout :: time where
  "defaultAsyncTimeout = 3600 * 1000000000"

definition apply_args :: "string list" where
  "apply_args = [''terraform'', ''apply'', ''-auto-approve'', ''-input=false'',
     ''-detailed-exitcode'', ''-json'']"

definition destroy_args :: "string list" where
  "destroy_args = [''terraform'', ''destroy'', ''-auto-approve'', ''-input=false'',
     ''-detailed-exitcode'', ''-json'']"

definition refresh_args :: "string list" where
  "refresh_args = [''terraform'', ''apply'', ''-refresh-only'', ''-auto-approve'',
     ''-input=false'', ''-detailed-exitcode'', ''-json'']"

definition plan_args :: "string list" where
  "plan_args = [''terraform'', ''plan'', ''-refresh=false'', ''-input=false'',
     ''-detailed-exitcode'', ''-json'']"

text \<open>
  \<^verbatim>\<open>w.LastOperation.M()\<close> for a value-receiver method \<open>M\<close> of Operation, on a
  non-nil pointer.
\<close>

definition call_LastOperation :: "(Operation \<Rightarrow> Operation) \<Rightarrow> Workspace \<Rightarrow> Workspace" where
  "call_LastOperation body w =
     w\<lparr>LastOperation := map_option (value_receiver_call body) (LastOperation w)\<rparr>"

text \<open>
  The error of the busy branches:
  \<^verbatim>\<open>errors.Errorf("%s operation ... %s ...", Type, StartTime.String())\<close>. \<open>String\<close> has a
  value receiver on \<^verbatim>\<open>time.Time\<close>, so a nil \<open>StartTime\<close> is dereferenced.
\<close>

definition still_running :: "Operation \<Rightarrow> 'a outcome" where
  "still_running op =
     (case StartTime op of
        None \<Rightarrow> Panics NilDereference
      | Some t \<Rightarrow> Fails (StillRunning (Type op) t))"

text \<open>
  The two asynchronous entry points. After the guard each calls \<open>MarkStart\<close>, reads
  \<open>StartTime\<close> back for the deadline (\<open>Add\<close> has a value receiver too) and launches the
  task.
\<close>

definition launch :: "string list \<Rightarrow> world \<Rightarrow> unit outcome \<times> world" where
  "launch args s =
     (case LastOperation (ws s) of
        None \<Rightarrow> (Panics NilDereference, s)
      | Some op \<Rightarrow>
          (case StartTime op of
             None \<Rightarrow> (Panics NilDereference, s)
           | Some t \<Rightarrow>
               (Returns (),
                s\<lparr>spawned := spawned s @
                  [\<lparr>task_args = args, task_dir = dir (ws s),
                    deadline = t + defaultAsyncTimeout\<rparr>]\<rparr>)))"

definition ApplyAsync :: "time \<Rightarrow> world \<Rightarrow> unit outcome \<times> world" where
  "ApplyAsync now s =
     (case LastOperation (ws s) of
        None \<Rightarrow> (Panics NilDereference, s)
      | Some op \<Rightarrow>
          if EndTime op = None then (still_running op, s)
          else launch apply_args (s\<lparr>ws := call_LastOperation (MarkStart now ''apply'') (ws s)\<rparr>))"

definition Destroy :: "time \<Rightarrow> world \<Rightarrow> unit outcome \<times> world" where
  "Destroy now s =
     (case LastOperation (ws s) of
        None \<Rightarrow> (Panics NilDereference, s)
      | Some op \<Rightarrow>
          if Type op = ''destroy'' then (Returns (), s)
          else if Type op \<noteq> ''destroy'' \<and> EndTime op = None then (still_running op, s)
          else launch destroy_args
                 (s\<lparr>ws := call_LastOperation (MarkStart now ''destroy'') (ws s)\<rparr>))"

text \<open>
  The body of the background task, run when the process has ended with \<open>out\<close>: the error
  is stored through the pointer (the source writes the field as \<^verbatim>\<open>Err\<close>), \<open>MarkEnd\<close> is
  called, then the callback.
\<close>

definition task_body ::
  "(string \<Rightarrow> string \<Rightarrow> error) \<Rightarrow> time \<Rightarrow> cmd_out \<Rightarrow> world \<Rightarrow> unit outcome \<times> world" where
  "task_body wrap now out s =
     (case LastOperation (ws s) of
        None \<Rightarrow> (Panics NilDereference, s)
      | Some op \<Rightarrow>
          (let w1 = (case run_err out of
                       None \<Rightarrow> ws s
                     | Some x \<Rightarrow>
                         (ws s)\<lparr>LastOperation := Some (op\<lparr>err := Some (wrap x (stderr out))\<rparr>)\<rparr>);
               w2 = call_LastOperation (MarkEnd now) w1
           in (Returns (), s\<lparr>ws := w2, enqueued := enqueued s + 1\<rparr>)))"

text \<open>What a launched task runs: its command line and its directory.\<close>

definition task_cmd :: "task \<Rightarrow> string list \<times> string" where
  "task_cmd k = (task_args k, task_dir k)"

text \<open>Whether a call returned the error of the busy branches.\<close>

definition Busy :: "'a outcome \<Rightarrow> bool" where
  "Busy r = (case r of Fails (StillRunning t st) \<Rightarrow> True | _ \<Rightarrow> False)"

section \<open>JSON values and the state file\<close>

text \<open>
  A value of type \<^verbatim>\<open>interface{}\<close> as the JSON codec sees it. A Go map is the list of its
  entries (no key twice), in the order a \<^verbatim>\<open>range\<close> loop visits them; a map variable
  is an option, whose \<open>None\<close> is the nil map.
\<close>

datatype val =
    Null
  | Bool bool
  | Num int
  | Str string
  | Arr "val list"
  | Map "(string \<times> val) list"

type_synonym gomap = "(string \<times> val) list option"

definition entries :: "gomap \<Rightarrow> (string \<times> val) list" where
  "entries m = (case m of None \<Rightarrow> [] | Some es \<Rightarrow> es)"

definition of_gomap :: "gomap \<Rightarrow> val" where
  "of_gomap m = (case m of None \<Rightarrow> Null | Some es \<Rightarrow> Map es)"

text \<open>A Go map has no key twice; an entry list that stands for one has distinct keys.\<close>

definition wf_map :: "gomap \<Rightarrow> bool" where
  "wf_map m = distinct (map fst (entries m))"

text \<open>
  Modelled from the spec: the state structs of \<^verbatim>\<open>pkg/json\<close> are not among the sources.
  The state file is \<open>{terraformVersion, lineage, resources: [{mode, type, name,
  providerConfig, instances: [{schemaVersion, privateRaw, attributesRaw}]}]}\<close>; the
  fields are named as TFState writes them, and the version and serial number are what
  \<^verbatim>\<open>json.NewStateV4()\<close> sets, whatever that is.
\<close>

record InstanceObjectStateV4 =
  SchemaVersion :: nat
  PrivateRaw :: "string option"
  AttributesRaw :: string

record ResourceStateV4 =
  Mode :: string
  Type_rs :: string
  Name_rs :: string
  ProviderConfig :: string
  Instances :: "InstanceObjectStateV4 list"

record StateV4 =
  Version_st :: nat
  TerraformVersion :: string
  Serial :: nat
  Lineage :: string
  Resources :: "ResourceStateV4 list"

text \<open>The \<open>attributesRaw\<close> of every instance of every resource of a state, in order.\<close>

definition AttributesRaw_of :: "StateV4 \<Rightarrow> string list" where
  "AttributesRaw_of st = map AttributesRaw (concat (map Instances (Resources st)))"

text \<open>
  The struct Plan decodes the summary line into. Both counts are \<^verbatim>\<open>float64\<close>, read here
  as the real numbers they stand for: a count decoded from JSON is finite, and both
  zeros of \<^verbatim>\<open>float64\<close> compare equal to 0.
\<close>

record plan =
  Add :: real
  Change :: real

text \<open>
  What the client package uses of packages that are not among the sources, taken as
  parameters: the JSON codec \<^verbatim>\<open>json.JSParser\<close> at the types it is used at (\<open>None\<close> is a
  non-nil error), \<^verbatim>\<open>json.NewStateV4()\<close>, and the two annotation keys
  \<^verbatim>\<open>tfcli.AnnotationKeyPrivateRawAttribute\<close> and the key \<^verbatim>\<open>meta.GetState\<close> reads.
\<close>

record deps =
  Marshal :: "val \<Rightarrow> string option"
  MarshalState :: "StateV4 \<Rightarrow> string option"
  UnmarshalState :: "string \<Rightarrow> StateV4 option"
  UnmarshalPlan :: "string \<Rightarrow> plan option"
  NewStateV4 :: StateV4
  AnnotationKeyPrivateRawAttribute :: string
  AnnotationKeyState :: string

text \<open>
  The operating system: what a process does to the files and what it returns, the
  temporary directory, and which file operations fail.
\<close>

record env =
  Run :: "string \<Rightarrow> string list \<Rightarrow> files \<Rightarrow> cmd_out \<times> files"
  TempDir :: string
  MkdirAll_fails :: "string \<Rightarrow> bool"
  Stat_fails :: "string \<Rightarrow> bool"
  WriteFile_fails :: "string \<Rightarrow> bool"

text \<open>\<^verbatim>\<open>filepath.Join\<close> of a directory and a name.\<close>

definition Join :: "string \<Rightarrow> string \<Rightarrow> string" where
  "Join d n = d @ ''/'' @ n"

section \<open>Workspace: the synchronous operations\<close>

text \<open>\<^verbatim>\<open>cmd.Run()\<close> in the workspace directory: the command line is logged.\<close>

definition run_cmd :: "env \<Rightarrow> string list \<Rightarrow> world \<Rightarrow> cmd_out \<times> world" where
  "run_cmd e args s =
     (case Run e (dir (ws s)) args (disk s) of
        (out, fs) \<Rightarrow> (out, s\<lparr>ran := ran s @ [args], disk := fs\<rparr>))"

text \<open>Reading \<^verbatim>\<open>terraform.tfstate\<close> back and decoding it.\<close>

definition read_state :: "deps \<Rightarrow> world \<Rightarrow> StateV4 outcome" where
  "read_state d s =
     (case disk s (Join (dir (ws s)) ''terraform.tfstate'') of
        None \<Rightarrow> Fails CannotReadState
      | Some raw \<Rightarrow>
          (case UnmarshalState d raw of
             None \<Rightarrow> Fails CannotUnmarshalState
           | Some st \<Rightarrow> Returns st))"

record ApplyResult =
  State_a :: "StateV4 option"

definition Apply :: "deps \<Rightarrow> env \<Rightarrow> world \<Rightarrow> ApplyResult outcome \<times> world" where
  "Apply d e s =
     (case LastOperation (ws s) of
        None \<Rightarrow> (Panics NilDereference, s)
      | Some op \<Rightarrow>
          if EndTime op = None then (still_running op, s)
          else
            (case run_cmd e apply_args s of
               (out, s1) \<Rightarrow>
                 (case run_err out of
                    Some x \<Rightarrow> (Fails (CannotApply x (stderr out)), s1)
                  | None \<Rightarrow>
                      (case read_state d s1 of
                         Panics p \<Rightarrow> (Panics p, s1)
                       | Fails x \<Rightarrow> (Fails x, s1)
                       | Returns st \<Rightarrow> (Returns \<lparr>State_a = Some st\<rparr>, s1)))))"

record RefreshResult =
  IsApplying :: bool
  IsDestroying :: bool
  State :: "StateV4 option"
  LastOperationError :: "error option"

definition RefreshResult_zero :: RefreshResult where
  "RefreshResult_zero =
     \<lparr>IsApplying = False, IsDestroying = False, State = None, LastOperationError = None\<rparr>"

text \<open>Lines 174 to 192 of Refresh: the provisioner in refresh-only mode, then the state.\<close>

definition refresh_run :: "deps \<Rightarrow> env \<Rightarrow> world \<Rightarrow> RefreshResult outcome \<times> world" where
  "refresh_run d e s =
     (case run_cmd e refresh_args s of
        (out, s1) \<Rightarrow>
          (case run_err out of
             Some x \<Rightarrow> (Fails (CannotRefresh x (stderr out)), s1)
           | None \<Rightarrow>
               (case read_state d s1 of
                  Panics p \<Rightarrow> (Panics p, s1)
                | Fails x \<Rightarrow> (Fails x, s1)
                | Returns st \<Rightarrow> (Returns (RefreshResult_zero\<lparr>State := Some st\<rparr>), s1))))"

text \<open>
  \<^verbatim>\<open>defer w.LastOperation.Flush()\<close>: the call runs when Refresh returns. \<open>Flush\<close> has a
  value receiver, so the deferred call is a call on a copy like any other.
\<close>

definition deferred_Flush :: "world \<Rightarrow> world" where
  "deferred_Flush s = s\<lparr>ws := call_LastOperation Flush (ws s)\<rparr>"

definition Refresh :: "deps \<Rightarrow> env \<Rightarrow> world \<Rightarrow> RefreshResult outcome \<times> world" where
  "Refresh d e s =
     (case LastOperation (ws s) of
        None \<Rightarrow> (Panics NilDereference, s)
      | Some op \<Rightarrow>
          if StartTime op \<noteq> None then
            if EndTime op = None then
              (Returns (RefreshResult_zero
                 \<lparr>IsApplying := (Type op = ''apply''), IsDestroying := (Type op = ''destroy'')\<rparr>), s)
            else
              (case err op of
                 Some x \<Rightarrow>
                   (Returns (RefreshResult_zero
                      \<lparr>IsApplying := (Type op = ''apply''), IsDestroying := (Type op = ''destroy''),
                       LastOperationError := Some (OperationFailed (Type op) x)\<rparr>),
                    deferred_Flush s)
               | None \<Rightarrow>
                   if Type op = ''destroy'' then (Fails NotFound, deferred_Flush s)
                   else (case refresh_run d e s of (r, s1) \<Rightarrow> (r, deferred_Flush s1)))
          else refresh_run d e s)"

record PlanResult =
  Exists :: bool
  UpToDate :: bool

text \<open>\<^verbatim>\<open>strings.Split(s, "\n")\<close>, \<^verbatim>\<open>strings.HasPrefix\<close> and \<^verbatim>\<open>strings.Contains\<close>.\<close>

fun Split_nl :: "string \<Rightarrow> string list" where
  "Split_nl [] = [[]]"
| "Split_nl (c # cs) =
     (if c = CHR 0x0A then [] # Split_nl cs
      else (case Split_nl cs of [] \<Rightarrow> [[c]] | l # ls \<Rightarrow> (c # l) # ls))"

fun HasPrefix :: "string \<Rightarrow> string \<Rightarrow> bool" where
  "HasPrefix s [] = True"
| "HasPrefix [] (p # ps) = False"
| "HasPrefix (c # cs) (p # ps) = (c = p \<and> HasPrefix cs ps)"

fun Contains :: "string \<Rightarrow> string \<Rightarrow> bool" where
  "Contains [] sub = (sub = [])"
| "Contains (c # cs) sub = (HasPrefix (c # cs) sub \<or> Contains cs sub)"

text \<open>The text Plan looks for: \<^verbatim>\<open>"type":"change_summary"\<close>, quotes included.\<close>

definition summary_mark :: string where
  "summary_mark =
     [CHR 0x22] @ ''type'' @ [CHR 0x22] @ '':'' @ [CHR 0x22] @ ''change_summary'' @ [CHR 0x22]"

text \<open>The loop of Plan: the first line that contains the mark, or the empty string.\<close>

fun summary_line :: "string list \<Rightarrow> string" where
  "summary_line [] = []"
| "summary_line (l # ls) = (if Contains l summary_mark then l else summary_line ls)"

definition Plan :: "deps \<Rightarrow> env \<Rightarrow> world \<Rightarrow> PlanResult outcome \<times> world" where
  "Plan d e s =
     (case LastOperation (ws s) of
        None \<Rightarrow> (Panics NilDereference, s)
      | Some op \<Rightarrow>
          if StartTime op \<noteq> None \<and> EndTime op = None then (still_running op, s)
          else
            (case run_cmd e plan_args s of
               (out, s1) \<Rightarrow>
                 (case run_err out of
                    Some x \<Rightarrow> (Fails (CannotPlan x (stderr out)), s1)
                  | None \<Rightarrow>
                      (let line = summary_line (Split_nl (stdout out)) in
                       if line = [] then (Fails (NoChangeSummary (stdout out)), s1)
                       else
                         (case UnmarshalPlan d line of
                            None \<Rightarrow> (Fails CannotUnmarshalSummary, s1)
                          | Some p \<Rightarrow>
                              (Returns \<lparr>Exists = (Add p = 0), UpToDate = (Change p = 0)\<rparr>,
                               s1))))))"

section \<open>FileProducer\<close>

text \<open>
  The managed resource, through the methods of the interface \<^verbatim>\<open>resource.Terraformed\<close>
  that the package calls. \<open>GetParameters\<close> and \<open>GetObservation\<close> give a map or fail with a
  message; \<open>Conditions\<close> is what \<open>SetConditions\<close> writes to.
\<close>

record Terraformed =
  GetUID :: string
  GetName :: string
  GetTerraformResourceType :: string
  GetAnnotations :: "string \<rightharpoonup> string"
  GetDeletionTimestamp :: "time option"
  GetParameters :: "string + gomap"
  GetObservation :: "string + gomap"
  Conditions :: "string \<rightharpoonup> string"

text \<open>
  crossplane-runtime's \<^verbatim>\<open>meta.GetExternalName\<close> and \<^verbatim>\<open>meta.WasDeleted\<close>: a missing
  annotation reads as the empty string, and a resource was deleted when its deletion
  timestamp is set and not the zero time.
\<close>

definition GetExternalName :: "Terraformed \<Rightarrow> string" where
  "GetExternalName tr =
     (case GetAnnotations tr ''crossplane.io/external-name'' of None \<Rightarrow> [] | Some n \<Rightarrow> n)"

definition WasDeleted :: "Terraformed \<Rightarrow> bool" where
  "WasDeleted tr = (case GetDeletionTimestamp tr of None \<Rightarrow> False | Some t \<Rightarrow> t \<noteq> 0)"

text \<open>
  Modelled from the spec: \<^verbatim>\<open>tfcli.TerraformSetup\<close> is not among the sources. The provider
  setup has the fields version, source and configuration, the configuration a mapping of
  provider options to values; they are laid out the way \<^verbatim>\<open>files.go\<close> reads them
  (\<^verbatim>\<open>Setup.Version\<close>, \<^verbatim>\<open>Setup.Requirement.Source\<close>, \<^verbatim>\<open>Setup.Requirement.Version\<close>,
  \<^verbatim>\<open>Setup.Configuration\<close>).
\<close>

record ProviderRequirement =
  Source :: string
  Version_req :: string

record TerraformSetup =
  Version :: string
  Requirement :: ProviderRequirement
  Configuration :: gomap

text \<open>The zero value of \<^verbatim>\<open>tfcli.TerraformSetup\<close>: what a field holds that was never set.\<close>

definition TerraformSetup_zero :: TerraformSetup where
  "TerraformSetup_zero =
     \<lparr>Version = [], Requirement = \<lparr>Source = [], Version_req = []\<rparr>, Configuration = None\<rparr>"

record FileProducer =
  Resource :: Terraformed
  Setup :: TerraformSetup
  parameters :: gomap
  observation :: gomap

definition NewFileProducer :: "Terraformed \<Rightarrow> FileProducer outcome" where
  "NewFileProducer tr =
     (case GetParameters tr of
        Inl m \<Rightarrow> Fails (CannotGetParameters m)
      | Inr params \<Rightarrow>
          (case GetObservation tr of
             Inl m \<Rightarrow> Fails (CannotGetObservation m)
           | Inr obs \<Rightarrow>
               Returns \<lparr>Resource = tr, Setup = TerraformSetup_zero,
                        parameters = params, observation = obs\<rparr>))"

text \<open>
  NewFileProducer sets \<open>Resource\<close>, \<open>parameters\<close> and \<open>observation\<close>; \<open>Setup\<close> is not
  among the fields of the literal and so holds its zero value.

  \<^verbatim>\<open>for k, v := range m { base[k] = v }\<close> is \<open>copy_into\<close>, over the entries of \<open>m\<close> in the
  order the loop visits them.
\<close>

fun copy_into :: "(string \<times> val) list \<Rightarrow> (string \<times> val) list \<Rightarrow> (string \<times> val) list" where
  "copy_into [] base = base"
| "copy_into ((k, v) # es) base = copy_into es (AList.update k v base)"

text \<open>The map \<open>base\<close> of TFState when it is handed to the codec.\<close>

definition attributes :: "FileProducer \<Rightarrow> (string \<times> val) list" where
  "attributes fp =
     AList.update ''id'' (Str (GetExternalName (Resource fp)))
       (copy_into (entries (observation fp))
          (copy_into (entries (parameters fp)) []))"

definition provider_config :: "string \<Rightarrow> string" where
  "provider_config src =
     ''provider['' @ [CHR 0x22] @ ''registry.terraform.io/'' @ src @ [CHR 0x22] @ '']''"

definition TFState :: "deps \<Rightarrow> FileProducer \<Rightarrow> StateV4 outcome" where
  "TFState d fp =
     (case Marshal d (Map (attributes fp)) of
        None \<Rightarrow> Fails CannotMarshalAttributes
      | Some attr \<Rightarrow>
          (let privateRaw = GetAnnotations (Resource fp) (AnnotationKeyPrivateRawAttribute d)
           in Returns ((NewStateV4 d)
                \<lparr>TerraformVersion := Version (Setup fp),
                 Lineage := GetUID (Resource fp),
                 Resources :=
                   [\<lparr>Mode = ''managed'',
                     Type_rs = GetTerraformResourceType (Resource fp),
                     Name_rs = GetName (Resource fp),
                     ProviderConfig = provider_config (Source (Requirement (Setup fp))),
                     Instances =
                       [\<lparr>SchemaVersion = 0, PrivateRaw = privateRaw,
                         AttributesRaw = attr\<rparr>]\<rparr>]\<rparr>)))"

text \<open>
  MainTF assigns to \<^verbatim>\<open>fp.parameters["prevent_destroy"]\<close> first (a panic on a nil map),
  so it returns the producer as it leaves it together with the configuration.
\<close>

definition MainTF :: "FileProducer \<Rightarrow> val outcome \<times> FileProducer" where
  "MainTF fp =
     (case parameters fp of
        None \<Rightarrow> (Panics NilMapAssignment, fp)
      | Some ps \<Rightarrow>
          (let fp1 = fp\<lparr>parameters :=
                 Some (AList.update ''prevent_destroy'' (Bool (\<not> WasDeleted (Resource fp))) ps)\<rparr>
           in (Returns (Map
                 [(''terraform'', Map
                    [(''required_providers'', Map
                       [(''tf-provider'', Map
                          [(''source'', Str (Source (Requirement (Setup fp1)))),
                           (''version'', Str (Version_req (Requirement (Setup fp1))))])])]),
                  (''provider'', Map
                    [(''tf-provider'', of_gomap (Configuration (Setup fp1)))]),
                  (''resource'', Map
                    [(GetTerraformResourceType (Resource fp1), Map
                       [(GetName (Resource fp1), of_gomap (parameters fp1))])])]),
               fp1)))"

section \<open>WorkspaceStore\<close>

text \<open>
  The registry maps a UID to the workspace stored for it. The state of the store's
  methods is the store and the files of the host.
\<close>

record WorkspaceStore =
  store :: "string \<rightharpoonup> Workspace"
  setup_ws :: TerraformSetup

definition NewWorkspaceStore :: "TerraformSetup \<Rightarrow> WorkspaceStore" where
  "NewWorkspaceStore su = \<lparr>store = Map.empty, setup_ws = su\<rparr>"

definition WriteFile :: "env \<Rightarrow> string \<Rightarrow> string \<Rightarrow> files \<Rightarrow> files option" where
  "WriteFile e path raw fs = (if WriteFile_fails e path then None else Some (fs(path \<mapsto> raw)))"

text \<open>
  Lines 62 to 74 of \<^verbatim>\<open>WorkspaceStore.Workspace\<close>: the state file is produced and written
  when there is none.
\<close>

definition write_state ::
  "deps \<Rightarrow> env \<Rightarrow> string \<Rightarrow> FileProducer \<Rightarrow> files \<Rightarrow> files outcome" where
  "write_state d e path fp fs =
     (if fs path \<noteq> None then Returns fs
      else
        (case TFState d fp of
           Panics p \<Rightarrow> Panics p
         | Fails x \<Rightarrow> Fails (CannotProduceState x)
         | Returns st \<Rightarrow>
             (case MarshalState d st of
                None \<Rightarrow> Fails CannotMarshalState
              | Some rawState \<Rightarrow>
                  (case WriteFile e path rawState fs of
                     None \<Rightarrow> Fails CannotWriteFile
                   | Some fs1 \<Rightarrow> Returns fs1))))"

text \<open>Lines 75 to 81: the configuration is marshalled and written every time.\<close>

definition write_main ::
  "deps \<Rightarrow> env \<Rightarrow> string \<Rightarrow> FileProducer \<Rightarrow> files \<Rightarrow> files outcome" where
  "write_main d e path fp fs =
     (case fst (MainTF fp) of
        Panics p \<Rightarrow> Panics p
      | Fails x \<Rightarrow> Fails x
      | Returns hcl \<Rightarrow>
          (case Marshal d hcl of
             None \<Rightarrow> Fails CannotMarshalMain
           | Some rawHCL \<Rightarrow>
               (case WriteFile e path rawHCL fs of
                  None \<Rightarrow> Fails CannotWriteFile
                | Some fs1 \<Rightarrow> Returns fs1)))"

text \<open>\<^verbatim>\<open>sync.Map.LoadOrStore\<close>: the stored value when there is one, else the given one, stored.\<close>

definition LoadOrStore ::
  "string \<Rightarrow> Workspace \<Rightarrow> WorkspaceStore \<Rightarrow> Workspace \<times> WorkspaceStore" where
  "LoadOrStore k w st =
     (case store st k of
        Some w0 \<Rightarrow> (w0, st)
      | None \<Rightarrow> (w, st\<lparr>store := (store st)(k \<mapsto> w)\<rparr>))"

definition WorkspaceStore_Workspace ::
  "deps \<Rightarrow> env \<Rightarrow> Terraformed \<Rightarrow> EnqueueFn \<Rightarrow> WorkspaceStore \<times> files
     \<Rightarrow> Workspace outcome \<times> WorkspaceStore \<times> files" where
  "WorkspaceStore_Workspace d e tr enq = (\<lambda>(st, fs).
     (let dir0 = Join (TempDir e) (GetUID tr) in
      case NewFileProducer tr of
        Panics p \<Rightarrow> (Panics p, st, fs)
      | Fails x \<Rightarrow> (Fails (CannotCreateFileProducer x), st, fs)
      | Returns fp \<Rightarrow>
          if MkdirAll_fails e dir0 then (Fails CannotCreateDirectory, st, fs)
          else if Stat_fails e (Join dir0 ''terraform.tfstate'') then (Fails CannotStatState, st, fs)
          else
            (case write_state d e (Join dir0 ''terraform.tfstate'') fp fs of
               Panics p \<Rightarrow> (Panics p, st, fs)
             | Fails x \<Rightarrow> (Fails x, st, fs)
             | Returns fs1 \<Rightarrow>
                 (case write_main d e (Join dir0 ''main.tf.json'') fp fs1 of
                    Panics p \<Rightarrow> (Panics p, st, fs1)
                  | Fails x \<Rightarrow> (Fails x, st, fs1)
                  | Returns fs2 \<Rightarrow>
                      (case LoadOrStore (GetUID tr)
                              \<lparr>LastOperation = None, Enqueue = enq, dir = dir0\<rparr> st of
                         (w, st1) \<Rightarrow> (Returns w, st1, fs2))))))"

section \<open>The external client\<close>

text \<open>
  A managed resource either implements \<^verbatim>\<open>resource.Terraformed\<close> or does not (the type
  assertion of each method).
\<close>

datatype Managed = IsTerraformed Terraformed | NotTerraformed

text \<open>What \<^verbatim>\<open>e.tf.Observe\<close> returns, and what Observe returns to the reconciler.\<close>

record Observation =
  Exists_o :: bool
  UpToDate_o :: bool
  LateInitialized :: bool
  ConnectionDetails_o :: "(string \<times> string) list"

record ExternalObservation =
  ResourceExists :: bool
  ResourceUpToDate :: bool
  ResourceLateInitialized :: bool
  ConnectionDetails :: "(string \<times> string) list"

definition ExternalObservation_zero :: ExternalObservation where
  "ExternalObservation_zero =
     \<lparr>ResourceExists = False, ResourceUpToDate = False, ResourceLateInitialized = False,
      ConnectionDetails = []\<rparr>"

text \<open>
  Modelled from the spec: \<^verbatim>\<open>meta.GetState\<close> of the repository's own \<^verbatim>\<open>pkg/meta\<close>, which
  is not among the sources, reads the prior state the resource carries in an annotation;
  a missing annotation reads as the empty string.
\<close>

definition GetState :: "deps \<Rightarrow> Terraformed \<Rightarrow> string" where
  "GetState d tr = (case GetAnnotations tr (AnnotationKeyState d) of None \<Rightarrow> [] | Some s \<Rightarrow> s)"

text \<open>
  \<^verbatim>\<open>tr.SetConditions(xpv1.Available())\<close>: the Ready condition of the resource becomes
  Available.
\<close>

definition SetConditions_Available :: "Terraformed \<Rightarrow> Terraformed" where
  "SetConditions_Available tr = tr\<lparr>Conditions := (Conditions tr)(''Ready'' \<mapsto> ''Available'')\<rparr>"

text \<open>
  Observe. The adapter \<^verbatim>\<open>e.tf\<close> is an interface value: \<open>tf\<close> is its Observe method, a
  function of the resource and of the adapter's own state \<open>'a\<close> (the workspaces it holds
  and the processes it runs). The result carries the resource as Observe leaves it.
\<close>

definition Observe ::
  "deps \<Rightarrow> (Terraformed \<Rightarrow> 'a \<Rightarrow> (error + Observation) \<times> 'a) \<Rightarrow> Managed \<Rightarrow> 'a
     \<Rightarrow> (ExternalObservation \<times> Managed) outcome \<times> 'a" where
  "Observe d tf mg a =
     (case mg of
        NotTerraformed \<Rightarrow> (Fails UnexpectedObject, a)
      | IsTerraformed tr \<Rightarrow>
          if GetExternalName tr = [] \<and> GetState d tr = [] then
            (Returns (ExternalObservation_zero\<lparr>ResourceExists := False\<rparr>, mg), a)
          else
            (case tf tr a of
               (Inl x, a1) \<Rightarrow> (Fails (CannotCheckExists x), a1)
             | (Inr res, a1) \<Rightarrow>
                 (let tr1 = (if Exists_o res then SetConditions_Available tr else tr)
                  in (Returns
                        (\<lparr>ResourceExists = Exists_o res,
                          ResourceUpToDate = UpToDate_o res,
                          ResourceLateInitialized = LateInitialized res,
                          ConnectionDetails = ConnectionDetails_o res\<rparr>,
                         IsTerraformed tr1),
                      a1))))"

section \<open>Sample values\<close>

text \<open>
  Concrete operations, workspaces, resources and collaborators, for applying the theorems
  below to inputs. The sample codec writes a value in JSON notation, strings between
  quotes as they are; a theorem that holds for every codec is applied to this one.
\<close>

definition sample_op :: "string \<Rightarrow> time option \<Rightarrow> time option \<Rightarrow> Operation" where
  "sample_op t st en = \<lparr>Type = t, StartTime = st, EndTime = en, err = None\<rparr>"

definition sample_world :: "Operation option \<Rightarrow> world" where
  "sample_world p =
     \<lparr>ws = \<lparr>LastOperation = p, Enqueue = 0, dir = ''/tmp/uid-1''\<rparr>,
      disk = Map.empty, ran = [], spawned = [], enqueued = 0\<rparr>"

fun digits :: "nat \<Rightarrow> string" where
  "digits n =
     (if n < 10 then [char_of (48 + n)] else digits (n div 10) @ [char_of (48 + n mod 10)])"

declare digits.simps [simp del]

definition quoted :: "string \<Rightarrow> string" where
  "quoted s = [CHR 0x22] @ s @ [CHR 0x22]"

fun commas :: "string list \<Rightarrow> string" where
  "commas [] = []"
| "commas [x] = x"
| "commas (x # y # zs) = x @ '','' @ commas (y # zs)"

fun sample_encode :: "val \<Rightarrow> string" where
  "sample_encode Null = ''null''"
| "sample_encode (Bool b) = (if b then ''true'' else ''false'')"
| "sample_encode (Num n) = (if n < 0 then ''-'' @ digits (nat (- n)) else digits (nat n))"
| "sample_encode (Str s) = quoted s"
| "sample_encode (Arr vs) = ''['' @ commas (map sample_encode vs) @ '']''"
| "sample_encode (Map es) =
     ''{'' @ commas (map (\<lambda>e. quoted (fst e) @ '':'' @ sample_encode (snd e)) es) @ ''}''"

text \<open>A summary line as the provisioner prints it, and a log that holds it on line 2.\<close>

definition sample_summary :: string where
  "sample_summary =
     ''{'' @ quoted ''type'' @ '':'' @ quoted ''change_summary'' @ '','' @ quoted ''changes''
       @ '':{'' @ quoted ''add'' @ '':0,'' @ quoted ''change'' @ '':1}}''"

definition sample_log :: string where
  "sample_log = ''{'' @ quoted ''type'' @ '':'' @ quoted ''version'' @ ''}'' @ [CHR 0x0A]
     @ sample_summary @ [CHR 0x0A]"

definition sample_deps :: deps where
  "sample_deps =
     \<lparr>Marshal = (\<lambda>v. Some (sample_encode v)),
      MarshalState = (\<lambda>st. Some (''lineage='' @ Lineage st @ '' attributes=''
         @ concat (AttributesRaw_of st))),
      UnmarshalState = (\<lambda>raw. None),
      UnmarshalPlan = (\<lambda>l. if l = sample_summary then Some \<lparr>Add = 0, Change = 1\<rparr> else None),
      NewStateV4 = \<lparr>Version_st = 4, TerraformVersion = [], Serial = 1, Lineage = [],
                    Resources = []\<rparr>,
      AnnotationKeyPrivateRawAttribute = ''sample/private-raw'',
      AnnotationKeyState = ''sample/state''\<rparr>"

definition sample_out :: "string \<Rightarrow> cmd_out" where
  "sample_out out = \<lparr>run_err = None, stdout = out, stderr = []\<rparr>"

text \<open>A host on which every process succeeds and prints \<open>out\<close>, and no file operation fails.\<close>

definition sample_env :: "string \<Rightarrow> env" where
  "sample_env out =
     \<lparr>Run = (\<lambda>d args fs. (sample_out out, fs)),
      TempDir = ''/tmp'',
      MkdirAll_fails = (\<lambda>p. False),
      Stat_fails = (\<lambda>p. False),
      WriteFile_fails = (\<lambda>p. False)\<rparr>"

definition sample_tr :: Terraformed where
  "sample_tr =
     \<lparr>GetUID = ''uid-1'', GetName = ''db'', GetTerraformResourceType = ''aws_db_instance'',
      GetAnnotations = [''crossplane.io/external-name'' \<mapsto> ''db-1''],
      GetDeletionTimestamp = None,
      GetParameters = Inr (Some [(''engine'', Str ''postgres''), (''size'', Num 10)]),
      GetObservation = Inr (Some [(''size'', Num 20), (''arn'', Str ''arn:db-1'')]),
      Conditions = Map.empty\<rparr>"

definition sample_fp :: FileProducer where
  "sample_fp =
     \<lparr>Resource = sample_tr, Setup = TerraformSetup_zero,
      parameters = Some [(''engine'', Str ''postgres''), (''size'', Num 10)],
      observation = Some [(''size'', Num 20), (''arn'', Str ''arn:db-1'')]\<rparr>"

definition sample_setup :: TerraformSetup where
  "sample_setup =
     \<lparr>Version = ''1.0.5'',
      Requirement = \<lparr>Source = ''hashicorp/aws'', Version_req = ''3.56.0''\<rparr>,
      Configuration = Some [(''region'', Str ''us-east-1'')]\<rparr>"

definition sample_store :: WorkspaceStore where
  "sample_store = NewWorkspaceStore sample_setup"

section \<open>Operation: the transitions\<close>

lemma value_receiver_call_id: "value_receiver_call body x = x"
  by (simp add: value_receiver_call_def)

lemma call_LastOperation_id: "call_LastOperation body w = w"
  by (cases "LastOperation w")
     (simp_all add: call_LastOperation_def value_receiver_call_id option.map_ident)

text \<open>
  C1. The bodies of MarkStart, MarkEnd and Flush make the transitions Idle to Running,
  Running to Finished and Finished to Idle on their own receiver. Called on the
  operation of a workspace they run on a copy: a later read of \<open>LastOperation\<close> finds the
  operation it found before the call, so none of the three transitions is visible to a
  reader.
\<close>

theorem Operation_transitions_lost:
  "Running (MarkStart now t op) \<and> Finished (MarkEnd now' (MarkStart now t op)) \<and> Idle (Flush op)
   \<and> LastOperation (call_LastOperation (MarkStart now t) w) = LastOperation w
   \<and> LastOperation (call_LastOperation (MarkEnd now) w) = LastOperation w
   \<and> LastOperation (call_LastOperation Flush w) = LastOperation w"
  by (simp add: call_LastOperation_id Running_def Finished_def Idle_def
        MarkStart_def MarkEnd_def Flush_def)

section \<open>Workspace: the busy guard\<close>

text \<open>
  C2, as amended. For a workspace whose operation has its start time set (Running or
  Finished): ApplyAsync and Apply return the busy error exactly when the operation is
  Running, and Destroy exactly when it is Running with a type other than destroy. On a
  Finished operation ApplyAsync returns nil and launches one task that runs the apply
  command in the workspace directory, Apply runs the provisioner, and Destroy returns
  nil, launching one task that runs the destroy command unless the type is destroy
  already. Nothing is said of the deadline of a launched task, nor of the operation
  after a launch.
\<close>

theorem busy_iff_running:
  assumes "LastOperation (ws s) = Some op" and "StartTime op = Some t"
  shows "(if EndTime op = None then ApplyAsync now s = (Fails (StillRunning (Type op) t), s)
          else fst (ApplyAsync now s) = Returns ()
             \<and> map task_cmd (spawned (snd (ApplyAsync now s)))
                 = map task_cmd (spawned s) @ [(apply_args, dir (ws s))])
       \<and> (if Type op = ''destroy'' then Destroy now s = (Returns (), s)
          else if EndTime op = None then Destroy now s = (Fails (StillRunning (Type op) t), s)
          else fst (Destroy now s) = Returns ()
             \<and> map task_cmd (spawned (snd (Destroy now s)))
                 = map task_cmd (spawned s) @ [(destroy_args, dir (ws s))])
       \<and> (if EndTime op = None then Apply d e s = (Fails (StillRunning (Type op) t), s)
          else ran (snd (Apply d e s)) = ran s @ [apply_args])
       \<and> Busy (fst (ApplyAsync now s)) = Running op
       \<and> Busy (fst (Apply d e s)) = Running op
       \<and> Busy (fst (Destroy now s)) = (Running op \<and> Type op \<noteq> ''destroy'')"
proof -
  have w: "call_LastOperation b (ws s) = ws s" for b by (rule call_LastOperation_id)
  have a: "ApplyAsync now s =
           (if EndTime op = None then (Fails (StillRunning (Type op) t), s)
            else (Returns (),
                  s\<lparr>spawned := spawned s @
                     [\<lparr>task_args = apply_args, task_dir = dir (ws s),
                       deadline = t + defaultAsyncTimeout\<rparr>]\<rparr>))"
    using assms by (simp add: ApplyAsync_def still_running_def launch_def w)
  have b: "Destroy now s =
           (if Type op = ''destroy'' then (Returns (), s)
            else if EndTime op = None then (Fails (StillRunning (Type op) t), s)
            else (Returns (),
                  s\<lparr>spawned := spawned s @
                     [\<lparr>task_args = destroy_args, task_dir = dir (ws s),
                       deadline = t + defaultAsyncTimeout\<rparr>]\<rparr>))"
    using assms by (simp add: Destroy_def still_running_def launch_def w)
  have c: "EndTime op = None \<Longrightarrow> Apply d e s = (Fails (StillRunning (Type op) t), s)"
    using assms by (simp add: Apply_def still_running_def)
  have d1: "EndTime op \<noteq> None \<Longrightarrow> ran (snd (Apply d e s)) = ran s @ [apply_args]"
    using assms
    by (auto simp add: Apply_def run_cmd_def split: prod.splits option.splits outcome.splits)
  have d2: "EndTime op \<noteq> None \<Longrightarrow> \<not> Busy (fst (Apply d e s))"
    using assms
    by (auto simp add: Apply_def run_cmd_def read_state_def Busy_def
          split: prod.splits option.splits outcome.splits)
  have "Busy (fst (ApplyAsync now s)) = Running op"
    using assms(2) by (simp add: a Busy_def Running_def)
  moreover have "Busy (fst (Destroy now s)) = (Running op \<and> Type op \<noteq> ''destroy'')"
    using assms(2) by (auto simp add: b Busy_def Running_def)
  moreover have "Busy (fst (Apply d e s)) = Running op"
    using assms(2) c d2 by (cases "EndTime op = None") (simp_all add: Busy_def Running_def)
  moreover have "if EndTime op = None then Apply d e s = (Fails (StillRunning (Type op) t), s)
            else ran (snd (Apply d e s)) = ran s @ [apply_args]"
    using c d1 by simp
  moreover have "if EndTime op = None then ApplyAsync now s = (Fails (StillRunning (Type op) t), s)
          else fst (ApplyAsync now s) = Returns ()
             \<and> map task_cmd (spawned (snd (ApplyAsync now s)))
                 = map task_cmd (spawned s) @ [(apply_args, dir (ws s))]"
    by (simp add: a task_cmd_def)
  moreover have "if Type op = ''destroy'' then Destroy now s = (Returns (), s)
          else if EndTime op = None then Destroy now s = (Fails (StillRunning (Type op) t), s)
          else fst (Destroy now s) = Returns ()
             \<and> map task_cmd (spawned (snd (Destroy now s)))
                 = map task_cmd (spawned s) @ [(destroy_args, dir (ws s))]"
    by (simp add: b task_cmd_def)
  ultimately show ?thesis by simp
qed

text \<open>The theorem at a Running and at a Finished apply operation.\<close>

theorem busy_iff_running_witness:
  "ApplyAsync 9 (sample_world (Some (sample_op ''apply'' (Some 3) None)))
     = (Fails (StillRunning ''apply'' 3), sample_world (Some (sample_op ''apply'' (Some 3) None)))
   \<and> Busy (fst (Destroy 9 (sample_world (Some (sample_op ''apply'' (Some 3) None)))))
   \<and> Busy (fst (Apply sample_deps (sample_env [])
                  (sample_world (Some (sample_op ''apply'' (Some 3) None)))))
   \<and> fst (ApplyAsync 9 (sample_world (Some (sample_op ''apply'' (Some 3) (Some 8))))) = Returns ()
   \<and> map task_cmd
         (spawned (snd (ApplyAsync 9 (sample_world (Some (sample_op ''apply'' (Some 3) (Some 8)))))))
       = [(apply_args, ''/tmp/uid-1'')]
   \<and> map task_cmd
         (spawned (snd (Destroy 9 (sample_world (Some (sample_op ''apply'' (Some 3) (Some 8)))))))
       = [(destroy_args, ''/tmp/uid-1'')]
   \<and> ran (snd (Apply sample_deps (sample_env [])
                 (sample_world (Some (sample_op ''apply'' (Some 3) (Some 8))))))
       = [apply_args]
   \<and> \<not> Busy (fst (Apply sample_deps (sample_env [])
                    (sample_world (Some (sample_op ''apply'' (Some 3) (Some 8))))))"
proof -
  let ?r = "sample_op ''apply'' (Some 3) None"
  let ?f = "sample_op ''apply'' (Some 3) (Some 8)"
  have r1: "LastOperation (ws (sample_world (Some ?r))) = Some ?r"
    and f1: "LastOperation (ws (sample_world (Some ?f))) = Some ?f"
    by (simp_all add: sample_world_def)
  have r2: "StartTime ?r = Some 3" and f2: "StartTime ?f = Some 3"
    by (simp_all add: sample_op_def)
  have v: "EndTime ?r = None" "EndTime ?f = Some 8" "Type ?r = ''apply''" "Type ?f = ''apply''"
    "Running ?r" "\<not> Running ?f"
    by (simp_all add: sample_op_def Running_def)
  have w: "spawned (sample_world p) = []" "ran (sample_world p) = []"
    "dir (ws (sample_world p)) = ''/tmp/uid-1''" for p
    by (simp_all add: sample_world_def)
  show ?thesis
    using busy_iff_running [OF r1 r2, of 9 sample_deps "sample_env []"]
      busy_iff_running [OF f1 f2, of 9 sample_deps "sample_env []"]
    by (auto simp add: v w Busy_def)
qed

text \<open>
  Where the claim as stated fails. A Running destroy operation does not make Destroy busy;
  and on an Idle operation the three calls dereference the nil start time while they
  build the busy error, so none of them starts anything.
\<close>

theorem busy_iff_running_counterexample:
  "Running (sample_op ''destroy'' (Some 3) None)
   \<and> Destroy 9 (sample_world (Some (sample_op ''destroy'' (Some 3) None)))
       = (Returns (), sample_world (Some (sample_op ''destroy'' (Some 3) None)))
   \<and> Idle (sample_op [] None None)
   \<and> ApplyAsync 9 (sample_world (Some (sample_op [] None None)))
       = (Panics NilDereference, sample_world (Some (sample_op [] None None)))
   \<and> Apply sample_deps (sample_env []) (sample_world (Some (sample_op [] None None)))
       = (Panics NilDereference, sample_world (Some (sample_op [] None None)))
   \<and> Destroy 9 (sample_world (Some (sample_op [] None None)))
       = (Panics NilDereference, sample_world (Some (sample_op [] None None)))"
  by (simp add: Running_def Idle_def sample_op_def sample_world_def Destroy_def ApplyAsync_def
        Apply_def still_running_def)

section \<open>Workspace: Destroy and Refresh\<close>

text \<open>
  C6. When the current operation of a workspace has type destroy, Running or Finished,
  Destroy returns nil and leaves the state as it was: no operation is started and no
  task is launched. A second Destroy does the same.
\<close>

theorem Destroy_idempotent:
  assumes "LastOperation (ws s) = Some op" and "Type op = ''destroy''"
  shows "Destroy now s = (Returns (), s) \<and> Destroy now' (snd (Destroy now s)) = (Returns (), s)"
  using assms by (simp add: Destroy_def)

theorem Destroy_idempotent_witness:
  "Destroy 9 (sample_world (Some (sample_op ''destroy'' (Some 3) None)))
     = (Returns (), sample_world (Some (sample_op ''destroy'' (Some 3) None)))
   \<and> Destroy 10 (snd (Destroy 9 (sample_world (Some (sample_op ''destroy'' (Some 3) None)))))
     = (Returns (), sample_world (Some (sample_op ''destroy'' (Some 3) None)))"
proof -
  have h1: "LastOperation (ws (sample_world (Some (sample_op ''destroy'' (Some 3) None))))
              = Some (sample_op ''destroy'' (Some 3) None)"
    by (simp add: sample_world_def)
  have h2: "Type (sample_op ''destroy'' (Some 3) None) = ''destroy''"
    by (simp add: sample_op_def)
  show ?thesis by (rule Destroy_idempotent [OF h1 h2])
qed

text \<open>
  C3. On a workspace whose operation is Finished with type destroy and no error, Refresh
  returns the not-found error. The deferred Flush runs on a copy, so the operation is
  not cleared: the state after the call is the state before it, and the next Refresh
  returns the not-found error again.
\<close>

theorem Refresh_gone_again:
  "Refresh d e (sample_world (Some (sample_op ''destroy'' (Some 3) (Some 8))))
     = (Fails NotFound, sample_world (Some (sample_op ''destroy'' (Some 3) (Some 8))))
   \<and> fst (Refresh d e (snd (Refresh d e
            (sample_world (Some (sample_op ''destroy'' (Some 3) (Some 8)))))))
     = Fails NotFound"
  by (simp add: Refresh_def sample_world_def sample_op_def deferred_Flush_def
        call_LastOperation_id)

section \<open>Workspace: Plan\<close>

lemma Contains_nonempty: "Contains l sub \<Longrightarrow> sub \<noteq> [] \<Longrightarrow> l \<noteq> []"
  by (cases l) auto

lemma summary_mark_nonempty: "summary_mark \<noteq> []"
  by (simp add: summary_mark_def)

lemma summary_line_find:
  "summary_line ls = (case find (\<lambda>l. Contains l summary_mark) ls of None \<Rightarrow> [] | Some l \<Rightarrow> l)"
  by (induction ls) auto

lemma find_Contains: "find (\<lambda>l. Contains l summary_mark) ls = Some l \<Longrightarrow> l \<noteq> []"
  by (auto simp: find_Some_iff dest: Contains_nonempty [OF _ summary_mark_nonempty])

text \<open>
  C5. Plan on a workspace whose operation is not Running, when the provisioner process
  succeeds with output \<open>out\<close>. If the first line of \<open>out\<close> that holds the text
  \<^verbatim>\<open>"type":"change_summary"\<close> decodes to the counts \<open>Add p\<close> and \<open>Change p\<close>, Plan returns
  \<open>Exists = (Add p = 0)\<close> and \<open>UpToDate = (Change p = 0)\<close>. If no line of \<open>out\<close> holds that
  text, Plan fails with the error that no change summary line was found.
\<close>

theorem Plan_change_summary:
  assumes "LastOperation (ws s) = Some op" and "\<not> Running op"
    and "Run e (dir (ws s)) plan_args (disk s) = (out, fs)" and "run_err out = None"
  shows "(\<forall>l p. find (\<lambda>l. Contains l summary_mark) (Split_nl (stdout out)) = Some l
                \<and> UnmarshalPlan d l = Some p
            \<longrightarrow> fst (Plan d e s) = Returns \<lparr>Exists = (Add p = 0), UpToDate = (Change p = 0)\<rparr>)
       \<and> ((\<forall>l \<in> set (Split_nl (stdout out)). \<not> Contains l summary_mark)
            \<longrightarrow> fst (Plan d e s) = Fails (NoChangeSummary (stdout out)))"
proof (intro conjI allI impI)
  fix l p
  assume h: "find (\<lambda>l. Contains l summary_mark) (Split_nl (stdout out)) = Some l
               \<and> UnmarshalPlan d l = Some p"
  then have "summary_line (Split_nl (stdout out)) = l" and "l \<noteq> []"
    by (simp add: summary_line_find, blast dest: find_Contains)
  then show "fst (Plan d e s) = Returns \<lparr>Exists = (Add p = 0), UpToDate = (Change p = 0)\<rparr>"
    using assms h by (auto simp add: Plan_def Running_def run_cmd_def)
next
  assume "\<forall>l \<in> set (Split_nl (stdout out)). \<not> Contains l summary_mark"
  then have "find (\<lambda>l. Contains l summary_mark) (Split_nl (stdout out)) = None"
    by (simp add: find_None_iff)
  then have "summary_line (Split_nl (stdout out)) = []"
    by (simp add: summary_line_find)
  then show "fst (Plan d e s) = Fails (NoChangeSummary (stdout out))"
    using assms by (auto simp add: Plan_def Running_def run_cmd_def)
qed

lemma sample_find:
  "find (\<lambda>l. Contains l summary_mark) (Split_nl sample_log) = Some sample_summary"
  by code_simp

lemma sample_find_none:
  "\<forall>l \<in> set (Split_nl ''Error: no configuration''). \<not> Contains l summary_mark"
  by code_simp

text \<open>
  The theorem on a log whose summary line counts nothing to add and one change, and on
  an output without a summary line.
\<close>

theorem Plan_change_summary_witness:
  "fst (Plan sample_deps (sample_env sample_log)
          (sample_world (Some (sample_op ''apply'' (Some 3) (Some 8)))))
     = Returns \<lparr>Exists = True, UpToDate = False\<rparr>
   \<and> fst (Plan sample_deps (sample_env ''Error: no configuration'')
             (sample_world (Some (sample_op ''apply'' (Some 3) (Some 8)))))
     = Fails (NoChangeSummary ''Error: no configuration'')"
proof -
  let ?s = "sample_world (Some (sample_op ''apply'' (Some 3) (Some 8)))"
  have h1: "LastOperation (ws ?s) = Some (sample_op ''apply'' (Some 3) (Some 8))"
    by (simp add: sample_world_def)
  have h2: "\<not> Running (sample_op ''apply'' (Some 3) (Some 8))"
    by (simp add: Running_def sample_op_def)
  have h3: "Run (sample_env out) (dir (ws ?s)) plan_args (disk ?s) = (sample_out out, disk ?s)"
    for out
    by (simp add: sample_env_def)
  have h4: "run_err (sample_out out) = None" for out
    by (simp add: sample_out_def)
  have so: "stdout (sample_out out) = out" for out
    by (simp add: sample_out_def)
  have u: "UnmarshalPlan sample_deps sample_summary = Some \<lparr>Add = 0, Change = 1\<rparr>"
    by (simp add: sample_deps_def)
  have a: "fst (Plan sample_deps (sample_env sample_log) ?s)
             = Returns \<lparr>Exists = True, UpToDate = False\<rparr>"
    using Plan_change_summary [OF h1 h2 h3 h4, of sample_log sample_deps] sample_find u
    by (simp add: so)
  have b: "fst (Plan sample_deps (sample_env ''Error: no configuration'') ?s)
             = Fails (NoChangeSummary ''Error: no configuration'')"
    using Plan_change_summary [OF h1 h2 h3 h4, of "''Error: no configuration''" sample_deps]
      sample_find_none
    by (simp add: so)
  show ?thesis using a b by simp
qed

section \<open>FileProducer: the state attributes\<close>

lemma copy_into_map_of:
  "distinct (map fst es) \<Longrightarrow> map_of (copy_into es base) = map_of base ++ map_of es"
proof (induction es arbitrary: base)
  case Nil
  then show ?case by simp
next
  case (Cons e es)
  obtain k v where e: "e = (k, v)" by (cases e)
  from Cons.prems e have k: "k \<notin> dom (map_of es)" and d: "distinct (map fst es)"
    by (auto simp: dom_map_of_conv_image_fst)
  have "map_of (copy_into (e # es) base) = map_of (AList.update k v base) ++ map_of es"
    using Cons.IH [OF d] e by simp
  also have "\<dots> = (map_of base)(k \<mapsto> v) ++ map_of es"
    by (simp add: update_conv')
  also have "\<dots> = (map_of base ++ map_of es)(k \<mapsto> v)"
    using k by (simp add: map_add_upd_left)
  also have "\<dots> = map_of base ++ map_of (e # es)"
    using e by simp
  finally show ?case .
qed

lemma copy_into_distinct:
  "distinct (map fst base) \<Longrightarrow> distinct (map fst (copy_into es base))"
  by (induction es arbitrary: base) (auto simp: distinct_update)

lemma attributes_map_of:
  assumes "wf_map (parameters fp)" and "wf_map (observation fp)"
  shows "map_of (attributes fp) =
           map_of (entries (parameters fp)) ++ map_of (entries (observation fp))
             ++ [''id'' \<mapsto> Str (GetExternalName (Resource fp))]"
  using assms
  by (simp add: attributes_def wf_map_def update_conv' copy_into_map_of)

lemma attributes_distinct: "distinct (map fst (attributes fp))"
  by (simp add: attributes_def distinct_update copy_into_distinct)

text \<open>
  C4. Let \<open>fp\<close> be the producer made for a resource whose parameters are \<open>ps\<close> and whose
  observation is \<open>os\<close>, and let the codec encode the map TFState builds as \<open>raw\<close>. Then
  that map is the merge of \<open>ps\<close>, then \<open>os\<close>, then \<open>id\<close> bound to the external name, a later
  binding overwriting an earlier one; it has no key twice; and TFState returns a state
  whose only \<open>attributesRaw\<close> is \<open>raw\<close>.
\<close>

theorem TFState_attributes:
  assumes "NewFileProducer tr = Returns fp"
    and "GetParameters tr = Inr ps" and "GetObservation tr = Inr os"
    and "wf_map ps" and "wf_map os"
    and "Marshal d (Map (attributes fp)) = Some raw"
  shows "map_of (attributes fp) =
           map_of (entries ps) ++ map_of (entries os) ++ [''id'' \<mapsto> Str (GetExternalName tr)]
         \<and> distinct (map fst (attributes fp))
         \<and> (\<exists>st. TFState d fp = Returns st \<and> AttributesRaw_of st = [raw])"
proof -
  from assms(1,2,3) have fp: "parameters fp = ps" "observation fp = os" "Resource fp = tr"
    by (auto simp: NewFileProducer_def)
  have "map_of (attributes fp) =
           map_of (entries ps) ++ map_of (entries os) ++ [''id'' \<mapsto> Str (GetExternalName tr)]"
    using attributes_map_of [of fp] assms(4,5) fp by simp
  moreover have "\<exists>st. TFState d fp = Returns st \<and> AttributesRaw_of st = [raw]"
    using assms(6) by (simp add: TFState_def AttributesRaw_of_def)
  ultimately show ?thesis using attributes_distinct by blast
qed

lemma sample_new: "NewFileProducer sample_tr = Returns sample_fp"
  by (simp add: NewFileProducer_def sample_tr_def sample_fp_def)

lemma sample_fields:
  "GetUID sample_tr = ''uid-1''" "GetName sample_tr = ''db''"
  "GetTerraformResourceType sample_tr = ''aws_db_instance''"
  "Resource sample_fp = sample_tr" "Setup sample_fp = TerraformSetup_zero"
  "parameters sample_fp = Some [(''engine'', Str ''postgres''), (''size'', Num 10)]"
  "observation sample_fp = Some [(''size'', Num 20), (''arn'', Str ''arn:db-1'')]"
  "WasDeleted sample_tr = False"
  by (simp_all add: sample_tr_def sample_fp_def WasDeleted_def)

text \<open>
  The theorem on the sample resource: the observed size wins over the desired one, the
  desired engine stays, and \<open>id\<close> is the external name.
\<close>

theorem TFState_attributes_witness:
  "map_of (attributes sample_fp) ''size'' = Some (Num 20)
   \<and> map_of (attributes sample_fp) ''engine'' = Some (Str ''postgres'')
   \<and> map_of (attributes sample_fp) ''id'' = Some (Str ''db-1'')
   \<and> (\<exists>st. TFState sample_deps sample_fp = Returns st
         \<and> AttributesRaw_of st = [sample_encode (Map (attributes sample_fp))])"
proof -
  have h2: "GetParameters sample_tr = Inr (Some [(''engine'', Str ''postgres''), (''size'', Num 10)])"
    and h3: "GetObservation sample_tr = Inr (Some [(''size'', Num 20), (''arn'', Str ''arn:db-1'')])"
    by (simp_all add: sample_tr_def)
  have h4: "wf_map (Some [(''engine'', Str ''postgres''), (''size'', Num 10)])"
    and h5: "wf_map (Some [(''size'', Num 20), (''arn'', Str ''arn:db-1'')])"
    by (simp_all add: wf_map_def entries_def)
  have h6: "Marshal sample_deps (Map (attributes sample_fp))
              = Some (sample_encode (Map (attributes sample_fp)))"
    by (simp add: sample_deps_def)
  have n: "GetExternalName sample_tr = ''db-1''"
    by (simp add: GetExternalName_def sample_tr_def)
  show ?thesis
    using TFState_attributes [OF sample_new h2 h3 h4 h5 h6]
    by (simp add: entries_def n)
qed

section \<open>FileProducer: what MainTF changes\<close>

text \<open>
  C8, as amended. TFState only reads the producer. MainTF, on a producer whose
  parameters map is not nil, leaves the resource, the setup and the observation as they
  were and binds \<open>prevent_destroy\<close> in the cached parameters map to whether the resource
  was not deleted. So the map TFState builds after MainTF is the merge of those
  parameters, then the observation, then \<open>id\<close>.
\<close>

theorem MainTF_effect:
  assumes "parameters fp = Some ps" and "wf_map (parameters fp)" and "wf_map (observation fp)"
  shows "Resource (snd (MainTF fp)) = Resource fp \<and> Setup (snd (MainTF fp)) = Setup fp
       \<and> observation (snd (MainTF fp)) = observation fp
       \<and> map_of (entries (parameters (snd (MainTF fp))))
           = (map_of ps)(''prevent_destroy'' \<mapsto> Bool (\<not> WasDeleted (Resource fp)))
       \<and> map_of (attributes (snd (MainTF fp)))
           = (map_of ps)(''prevent_destroy'' \<mapsto> Bool (\<not> WasDeleted (Resource fp)))
               ++ map_of (entries (observation fp))
               ++ [''id'' \<mapsto> Str (GetExternalName (Resource fp))]"
proof -
  let ?fp = "snd (MainTF fp)"
  have p: "parameters ?fp
             = Some (AList.update ''prevent_destroy'' (Bool (\<not> WasDeleted (Resource fp))) ps)"
    and r: "Resource ?fp = Resource fp" "Setup ?fp = Setup fp" "observation ?fp = observation fp"
    using assms(1) by (simp_all add: MainTF_def Let_def)
  have wf: "wf_map (parameters ?fp)"
    using assms(1,2) by (simp add: p wf_map_def entries_def distinct_update)
  have m: "map_of (entries (parameters ?fp))
           = (map_of ps)(''prevent_destroy'' \<mapsto> Bool (\<not> WasDeleted (Resource fp)))"
    by (simp add: p entries_def update_conv')
  have "map_of (attributes ?fp) = map_of (entries (parameters ?fp))
          ++ map_of (entries (observation ?fp))
          ++ [''id'' \<mapsto> Str (GetExternalName (Resource ?fp))]"
    using wf assms(3) r by (intro attributes_map_of) simp_all
  then show ?thesis using r m by simp
qed

theorem MainTF_effect_witness:
  "observation (snd (MainTF sample_fp)) = observation sample_fp
   \<and> map_of (entries (parameters (snd (MainTF sample_fp)))) ''prevent_destroy'' = Some (Bool True)
   \<and> map_of (attributes (snd (MainTF sample_fp))) ''prevent_destroy'' = Some (Bool True)
   \<and> map_of (attributes (snd (MainTF sample_fp))) ''size'' = Some (Num 20)"
proof -
  have h1: "parameters sample_fp = Some [(''engine'', Str ''postgres''), (''size'', Num 10)]"
    by (simp add: sample_fp_def)
  have h2: "wf_map (parameters sample_fp)" and h3: "wf_map (observation sample_fp)"
    by (simp_all add: sample_fp_def wf_map_def entries_def)
  have d: "\<not> WasDeleted (Resource sample_fp)"
    by (simp add: sample_fields)
  show ?thesis
    using MainTF_effect [OF h1 h2 h3] d
    by (simp add: sample_fields entries_def)
qed

text \<open>
  Where the claim as stated fails: on the sample producer MainTF changes the cached
  parameters, and with them the map and the state TFState builds.
\<close>

theorem MainTF_effect_counterexample:
  "parameters (snd (MainTF sample_fp)) \<noteq> parameters sample_fp
   \<and> attributes (snd (MainTF sample_fp)) \<noteq> attributes sample_fp
   \<and> TFState sample_deps (snd (MainTF sample_fp)) \<noteq> TFState sample_deps sample_fp"
  by (simp add: MainTF_def sample_fp_def Let_def attributes_def entries_def TFState_def
        sample_deps_def)

section \<open>WorkspaceStore\<close>

text \<open>
  C7. The files \<^verbatim>\<open>WorkspaceStore.Workspace\<close> leaves behind do not depend on the setup the
  store holds: the producer it builds is never given that setup. For the sample store,
  whose setup names the source \<^verbatim>\<open>hashicorp/aws\<close>, the \<^verbatim>\<open>main.tf.json\<close> written carries an
  empty source, an empty version and a null provider configuration.
\<close>

theorem setup_never_reaches_main_tf:
  "snd (snd (WorkspaceStore_Workspace d e tr enq (st\<lparr>setup_ws := su\<rparr>, fs)))
     = snd (snd (WorkspaceStore_Workspace d e tr enq (st, fs)))
   \<and> snd (snd (WorkspaceStore_Workspace sample_deps (sample_env []) sample_tr 7
                 (NewWorkspaceStore sample_setup, Map.empty))) ''/tmp/uid-1/main.tf.json''
     = Marshal sample_deps (Map
         [(''terraform'', Map [(''required_providers'', Map [(''tf-provider'',
             Map [(''source'', Str []), (''version'', Str [])])])]),
          (''provider'', Map [(''tf-provider'', Null)]),
          (''resource'', Map [(''aws_db_instance'', Map [(''db'',
             Map [(''engine'', Str ''postgres''), (''size'', Num 10),
                  (''prevent_destroy'', Bool True)])])])])
   \<and> Source (Requirement sample_setup) = ''hashicorp/aws''"
proof -
  have "snd (snd (WorkspaceStore_Workspace d e tr enq (st\<lparr>setup_ws := su\<rparr>, fs)))
     = snd (snd (WorkspaceStore_Workspace d e tr enq (st, fs)))"
    by (simp add: WorkspaceStore_Workspace_def LoadOrStore_def Let_def
          split: outcome.splits option.splits prod.splits)
  moreover have "snd (snd (WorkspaceStore_Workspace sample_deps (sample_env []) sample_tr 7
                 (NewWorkspaceStore sample_setup, Map.empty))) ''/tmp/uid-1/main.tf.json''
     = Marshal sample_deps (Map
         [(''terraform'', Map [(''required_providers'', Map [(''tf-provider'',
             Map [(''source'', Str []), (''version'', Str [])])])]),
          (''provider'', Map [(''tf-provider'', Null)]),
          (''resource'', Map [(''aws_db_instance'', Map [(''db'',
             Map [(''engine'', Str ''postgres''), (''size'', Num 10),
                  (''prevent_destroy'', Bool True)])])])])"
    by (simp add: WorkspaceStore_Workspace_def sample_new write_state_def write_main_def
          TFState_def MainTF_def WriteFile_def LoadOrStore_def
          NewWorkspaceStore_def Join_def Let_def sample_deps_def sample_env_def sample_fields
          TerraformSetup_zero_def of_gomap_def)
  moreover have "Source (Requirement sample_setup) = ''hashicorp/aws''"
    by (simp add: sample_setup_def)
  ultimately show ?thesis by simp
qed

text \<open>
  C10. A workspace that \<^verbatim>\<open>WorkspaceStore.Workspace\<close> creates and registers (the store
  held none for the resource) has a nil \<open>LastOperation\<close>, and on such a workspace each of
  Plan, Apply, ApplyAsync, Destroy and Refresh panics with a nil dereference before it
  does anything else.
\<close>

theorem fresh_Workspace_panics:
  assumes "WorkspaceStore_Workspace d e tr enq (st, fs) = (Returns w, st', fs')"
    and "store st (GetUID tr) = None"
  shows "LastOperation w = None \<and> store st' (GetUID tr) = Some w
       \<and> Plan d' e' (s\<lparr>ws := w\<rparr>) = (Panics NilDereference, s\<lparr>ws := w\<rparr>)
       \<and> Apply d' e' (s\<lparr>ws := w\<rparr>) = (Panics NilDereference, s\<lparr>ws := w\<rparr>)
       \<and> ApplyAsync now (s\<lparr>ws := w\<rparr>) = (Panics NilDereference, s\<lparr>ws := w\<rparr>)
       \<and> Destroy now (s\<lparr>ws := w\<rparr>) = (Panics NilDereference, s\<lparr>ws := w\<rparr>)
       \<and> Refresh d' e' (s\<lparr>ws := w\<rparr>) = (Panics NilDereference, s\<lparr>ws := w\<rparr>)"
proof -
  from assms
  have w: "w = \<lparr>LastOperation = None, Enqueue = enq, dir = Join (TempDir e) (GetUID tr)\<rparr>"
    and st': "store st' (GetUID tr) = Some w"
    by (auto simp add: WorkspaceStore_Workspace_def LoadOrStore_def Let_def
          split: outcome.splits option.splits prod.splits if_splits)
  from w have n: "LastOperation w = None" by simp
  show ?thesis using n st'
    by (simp add: Plan_def Apply_def ApplyAsync_def Destroy_def Refresh_def)
qed

lemma sample_acquire:
  "fst (WorkspaceStore_Workspace sample_deps (sample_env []) sample_tr 7 (sample_store, Map.empty))
     = Returns \<lparr>LastOperation = None, Enqueue = 7, dir = ''/tmp/uid-1''\<rparr>"
  by (simp add: WorkspaceStore_Workspace_def sample_new write_state_def write_main_def
        TFState_def MainTF_def WriteFile_def LoadOrStore_def sample_store_def
        NewWorkspaceStore_def Join_def Let_def sample_deps_def sample_env_def sample_fields)

theorem fresh_Workspace_panics_witness:
  "fst (WorkspaceStore_Workspace sample_deps (sample_env []) sample_tr 7 (sample_store, Map.empty))
     = Returns \<lparr>LastOperation = None, Enqueue = 7, dir = ''/tmp/uid-1''\<rparr>
   \<and> fst (ApplyAsync 9 ((sample_world None)
           \<lparr>ws := \<lparr>LastOperation = None, Enqueue = 7, dir = ''/tmp/uid-1''\<rparr>\<rparr>))
       = Panics NilDereference
   \<and> fst (Refresh sample_deps (sample_env []) ((sample_world None)
           \<lparr>ws := \<lparr>LastOperation = None, Enqueue = 7, dir = ''/tmp/uid-1''\<rparr>\<rparr>))
       = Panics NilDereference
   \<and> fst (Plan sample_deps (sample_env []) ((sample_world None)
           \<lparr>ws := \<lparr>LastOperation = None, Enqueue = 7, dir = ''/tmp/uid-1''\<rparr>\<rparr>))
       = Panics NilDereference"
proof -
  let ?r = "WorkspaceStore_Workspace sample_deps (sample_env []) sample_tr 7
              (sample_store, Map.empty)"
  let ?w = "\<lparr>LastOperation = None, Enqueue = 7, dir = ''/tmp/uid-1''\<rparr>"
  have h1: "?r = (Returns ?w, fst (snd ?r), snd (snd ?r))"
    using sample_acquire by (simp add: prod_eq_iff)
  have h2: "store sample_store (GetUID sample_tr) = None"
    by (simp add: sample_store_def NewWorkspaceStore_def)
  show ?thesis
    using fresh_Workspace_panics [OF h1 h2, where d' = sample_deps and e' = "sample_env []"
        and s = "sample_world None" and now = 9]
      sample_acquire
    by simp
qed

section \<open>The external client: Observe\<close>

text \<open>
  C9. For a resource whose external name is empty and whose prior-state annotation is
  empty, Observe returns an observation with \<open>ResourceExists = False\<close> and no error. It
  does so whatever the adapter is, without calling it: the adapter's state and the
  resource are the ones it was given.
\<close>

theorem Observe_without_identity:
  assumes "GetExternalName tr = []" and "GetState d tr = []"
  shows "Observe d tf (IsTerraformed tr) a
           = (Returns (ExternalObservation_zero, IsTerraformed tr), a)
         \<and> ResourceExists ExternalObservation_zero = False"
  using assms by (simp add: Observe_def ExternalObservation_zero_def)

text \<open>The theorem with an adapter that would count its calls and fail.\<close>

theorem Observe_without_identity_witness:
  "Observe sample_deps (\<lambda>tr a. (Inl NotFound, Suc a))
      (IsTerraformed (sample_tr\<lparr>GetAnnotations := Map.empty\<rparr>)) (0::nat)
     = (Returns (ExternalObservation_zero, IsTerraformed (sample_tr\<lparr>GetAnnotations := Map.empty\<rparr>)),
        0)
   \<and> ResourceExists ExternalObservation_zero = False"
proof -
  have h1: "GetExternalName (sample_tr\<lparr>GetAnnotations := Map.empty\<rparr>) = []"
    by (simp add: GetExternalName_def)
  have h2: "GetState sample_deps (sample_tr\<lparr>GetAnnotations := Map.empty\<rparr>) = []"
    by (simp add: GetState_def)
  show ?thesis by (rule Observe_without_identity [OF h1 h2])
qed

end
